theory Spec2Isabelle
  imports Main "HOL-Library.Sublist" "HOL-Library.Char_ord" "HOL-Library.List_Lexorder"
begin

section \<open>JavaScript values used by the recorder\<close>

text \<open>
  Strings are character lists over ASCII. \<open>String.prototype.toLowerCase\<close> maps the
  letters A to Z to a to z and leaves every other ASCII character as it is;
  \<open>s.includes(p)\<close> is \<^const>\<open>sublist\<close> \<open>p s\<close> (a contiguous run of \<open>s\<close>) and
  \<open>s.startsWith(p)\<close> is \<^const>\<open>prefix\<close> \<open>p s\<close>.
\<close>

definition lower_char :: "char \<Rightarrow> char" where
  "lower_char c =
     (let n = (of_char c :: nat) in if 65 \<le> n \<and> n \<le> 90 then char_of (n + 32) else c)"

definition toLowerCase :: "string \<Rightarrow> string" where
  "toLowerCase s = map lower_char s"

text \<open>\<open>Array.prototype.join\<close> on an array of strings.\<close>

fun js_join :: "string \<Rightarrow> string list \<Rightarrow> string" where
  "js_join sep [] = []"
| "js_join sep [x] = x"
| "js_join sep (x # y # ys) = x @ sep @ js_join sep (y # ys)"

text \<open>The decimal rendering of a non-negative integer, as a template literal prints it.\<close>

definition digit_char :: "nat \<Rightarrow> char" where
  "digit_char d = ''0123456789'' ! d"

fun show_nat :: "nat \<Rightarrow> string" where
  "show_nat n = (if n < 10 then [digit_char n] else show_nat (n div 10) @ [digit_char (n mod 10)])"

declare show_nat.simps [simp del]

text \<open>
  A thrown value: the constructor that made it and its \<open>message\<close>. The text of a
  \<open>TypeError\<close> or \<open>SyntaxError\<close> raised by the engine differs between engines; the
  model takes those texts from the environment.
\<close>

datatype error_kind = JsError | JsTypeError | JsSyntaxError | JsDOMException

datatype js_error = Thrown (kind: error_kind) (message: string)

text \<open>
  A value produced by \<open>JSON.parse\<close>. A number is kept as the text \<open>String\<close> gives for
  it (both zeros print as \<open>0\<close>); an object as its own properties.
\<close>

datatype json =
    JNull
  | JBool bool
  | JNum string
  | JStr string
  | JArr "json list"
  | JObj "(string \<times> json) list"

text \<open>
  Reading a property of a value that is neither \<open>null\<close> nor \<open>undefined\<close>, for a
  property name that no built-in prototype defines (the names read by this program are
  \<open>error\<close>, \<open>message\<close>, \<open>secure_url\<close> and \<open>public_id\<close>). \<open>None\<close> is \<open>undefined\<close>.
\<close>

fun js_prop :: "json \<Rightarrow> string \<Rightarrow> json option" where
  "js_prop (JObj kvs) p = map_of kvs p"
| "js_prop _ p = None"

fun truthy :: "json \<Rightarrow> bool" where
  "truthy JNull = False"
| "truthy (JBool b) = b"
| "truthy (JNum r) = (r \<noteq> ''0'')"
| "truthy (JStr s) = (s \<noteq> [])"
| "truthy (JArr xs) = True"
| "truthy (JObj kvs) = True"

text \<open>
  \<open>ToString\<close>, as \<open>new Error(x)\<close> applies it to its argument. \<open>None\<close> stands for the
  \<open>TypeError\<close> of an object whose own \<open>toString\<close> property (never callable in parsed
  JSON) hides \<open>Object.prototype.toString\<close>. An array prints its elements separated by
  commas, \<open>null\<close> as the empty string.
\<close>

fun js_ToString :: "json \<Rightarrow> string option" where
  "js_ToString JNull = Some ''null''"
| "js_ToString (JBool b) = Some (if b then ''true'' else ''false'')"
| "js_ToString (JNum r) = Some r"
| "js_ToString (JStr s) = Some s"
| "js_ToString (JArr xs) =
     map_option (js_join '','')
       (those (map (\<lambda>x. if x = JNull then Some [] else js_ToString x) xs))"
| "js_ToString (JObj kvs) =
     (if ''toString'' \<in> fst ` set kvs then None else Some ''[object Object]'')"

section \<open>The upload utility: data\<close>

text \<open>A \<open>Blob\<close>, by the two attributes the program reads.\<close>

record blob =
  blob_size :: nat
  blob_type :: string

record validation =
  valid :: bool
  errors :: "string list"

text \<open>How \<open>JSON.parse(xhr.responseText)\<close> ends: a \<open>SyntaxError\<close> with the engine's text, or a value.\<close>

datatype json_body = ParseError string | Parsed json

text \<open>The one event that settles the request of \<open>uploadWithProgress\<close>.\<close>

datatype xhr_outcome =
    Load nat json_body
  | NetworkFailure
  | TimedOut
  | Aborted

record response =
  ok :: bool
  status :: nat
  body :: json_body

record upload_result =
  success :: bool
  url :: "json option"
  publicId :: "json option"
  cloudinaryResponse :: json

text \<open>
  What the module reads from outside itself. \<open>onLine r\<close> and \<open>xhr r\<close> are what
  \<open>navigator.onLine\<close> holds and how the request settles in the invocation whose
  \<open>retryCount\<close> is \<open>r\<close> (each invocation of a retry chain has its own count).
  \<open>formatBytes\<close> computes with floating-point logarithms and is kept abstract.
\<close>

record env =
  cloud_name :: "string option"
  upload_preset :: "string option"
  onLine :: "nat \<Rightarrow> bool"
  xhr :: "nat \<Rightarrow> xhr_outcome"
  formatBytes :: "nat \<Rightarrow> string"
  null_read_msg :: "string \<Rightarrow> string"
  to_primitive_msg :: string

definition MAX_FILE_SIZE :: nat where
  "MAX_FILE_SIZE = 100 * 1024 * 1024"

definition MAX_RETRIES :: nat where
  "MAX_RETRIES = 3"

definition RETRY_DELAY :: nat where
  "RETRY_DELAY = 2000"

definition empty_msg :: string where
  "empty_msg = ''Video file is empty''"

definition size_msg :: "env \<Rightarrow> nat \<Rightarrow> string" where
  "size_msg e n =
     ''Video size ('' @ formatBytes e n @ '') exceeds limit ('' @ formatBytes e MAX_FILE_SIZE @ '')''"

definition type_msg :: string where
  "type_msg = ''Invalid file type. Expected video file''"

section \<open>validateVideo\<close>

text \<open>
  The argument is \<open>None\<close> for \<open>null\<close> or \<open>undefined\<close>. For such an argument the first
  test pushes the empty-file message, and the second test then reads \<open>blob.size\<close> of
  it, which throws.
\<close>

definition validateVideo :: "env \<Rightarrow> blob option \<Rightarrow> js_error + validation" where
  "validateVideo e blob =
     (case blob of
        None \<Rightarrow> Inl (Thrown JsTypeError (null_read_msg e ''size''))
      | Some b \<Rightarrow>
          (let errors1 = (if blob_size b = 0 then [empty_msg] else []);
               errors2 = errors1 @ (if blob_size b > MAX_FILE_SIZE then [size_msg e (blob_size b)] else []);
               errors3 = errors2 @ (if \<not> prefix ''video/'' (blob_type b) then [type_msg] else [])
           in Inr \<lparr>valid = (length errors3 = 0), errors = errors3\<rparr>))"

section \<open>uploadToCloudinary\<close>

definition CONFIG_MSG :: string where
  "CONFIG_MSG = ''Cloudinary credentials not configured. Please check .env file''"

definition OFFLINE_MSG :: string where
  "OFFLINE_MSG = ''No internet connection. Video saved locally and will be uploaded when online''"

text \<open>\<open>!X\<close> for a setting that is a string or \<open>undefined\<close>.\<close>

definition unset :: "string option \<Rightarrow> bool" where
  "unset s = (s = None \<or> s = Some [])"

definition isOnline :: "env \<Rightarrow> nat \<Rightarrow> bool" where
  "isOnline e r = onLine e r"

text \<open>
  \<open>uploadWithProgress\<close>: the promise resolves with a response on \<open>load\<close> and rejects on
  \<open>error\<close>, \<open>timeout\<close> and \<open>abort\<close>. Progress notifications go to the caller's callback
  and do not take part in the control flow.
\<close>

definition uploadWithProgress :: "xhr_outcome \<Rightarrow> js_error + response" where
  "uploadWithProgress out =
     (case out of
        Load s b \<Rightarrow> Inr \<lparr>ok = (s \<ge> 200 \<and> s < 300), status = s, body = b\<rparr>
      | NetworkFailure \<Rightarrow> Inl (Thrown JsError ''Network error during upload'')
      | TimedOut \<Rightarrow> Inl (Thrown JsError ''Upload timeout. Please try again with a shorter video'')
      | Aborted \<Rightarrow> Inl (Thrown JsError ''Upload cancelled''))"

definition retryableMessages :: "string list" where
  "retryableMessages =
     [''network error'', ''failed to fetch'', ''timeout'', ''connection'', ''ECONNRESET'', ''ETIMEDOUT'']"

definition isRetryableError :: "js_error \<Rightarrow> bool" where
  "isRetryableError error =
     (let message = toLowerCase (message error)
      in list_ex (\<lambda>msg. sublist msg message) retryableMessages)"

definition status_msg :: "nat \<Rightarrow> string" where
  "status_msg n = ''Upload failed with status '' @ show_nat n"

text \<open>
  What the branch for a response that is not ok throws: \<open>errorData\<close> is the parsed
  body, or \<open>{}\<close> when parsing fails; reading \<open>error\<close> of \<open>null\<close> throws; the message
  is \<open>errorData.error?.message\<close> when that is truthy, the status message otherwise.
\<close>

definition response_error :: "env \<Rightarrow> response \<Rightarrow> js_error" where
  "response_error e resp =
     (let errorData = (case body resp of ParseError m \<Rightarrow> JObj [] | Parsed j \<Rightarrow> j)
      in if errorData = JNull then Thrown JsTypeError (null_read_msg e ''error'')
         else
           (let msg = (case js_prop errorData ''error'' of
                         None \<Rightarrow> None
                       | Some x \<Rightarrow> if x = JNull then None else js_prop x ''message'')
            in case msg of
                 None \<Rightarrow> Thrown JsError (status_msg (status resp))
               | Some m \<Rightarrow>
                   if truthy m then
                     (case js_ToString m of
                        Some s \<Rightarrow> Thrown JsError s
                      | None \<Rightarrow> Thrown JsTypeError (to_primitive_msg e))
                   else Thrown JsError (status_msg (status resp))))"

text \<open>The body of the \<open>try\<close> block, for the way the request settles.\<close>

definition try_block :: "env \<Rightarrow> xhr_outcome \<Rightarrow> js_error + upload_result" where
  "try_block e out =
     (case uploadWithProgress out of
        Inl err \<Rightarrow> Inl err
      | Inr resp \<Rightarrow>
          if \<not> ok resp then Inl (response_error e resp)
          else
            (case body resp of
               ParseError m \<Rightarrow> Inl (Thrown JsSyntaxError m)
             | Parsed result \<Rightarrow>
                 if result = JNull then Inl (Thrown JsTypeError (null_read_msg e ''secure_url''))
                 else Inr \<lparr>success = True, url = js_prop result ''secure_url'',
                            publicId = js_prop result ''public_id'', cloudinaryResponse = result\<rparr>))"

text \<open>
  The steps a run goes through, in order. The first five are those of
  \<open>uploadToCloudinary\<close>; the others are those of the handlers of the application.
  An \<open>Await\<close> step is a call of the storage module, awaited until it settles.
\<close>

datatype event =
    CheckConfig
  | Validate
  | CheckOnline
  | Xhr
  | Sleep nat
  | ClearInterval
  | AwaitSaveVideo blob
  | AwaitGetVideos
  | AwaitUpdateVideo string bool
  | StopTracks
  | ClearPreview
  | Alert

function uploadToCloudinary ::
  "env \<Rightarrow> blob option \<Rightarrow> nat \<Rightarrow> event list \<times> (js_error + upload_result)" where
  "uploadToCloudinary e blob retryCount =
     (if unset (cloud_name e) \<or> unset (upload_preset e) then
        ([CheckConfig], Inl (Thrown JsError CONFIG_MSG))
      else
        (case validateVideo e blob of
           Inl err \<Rightarrow> ([CheckConfig, Validate], Inl err)
         | Inr validation \<Rightarrow>
             if \<not> valid validation then
               ([CheckConfig, Validate], Inl (Thrown JsError (js_join ''. '' (errors validation))))
             else if \<not> isOnline e retryCount then
               ([CheckConfig, Validate, CheckOnline], Inl (Thrown JsError OFFLINE_MSG))
             else
               (case try_block e (xhr e retryCount) of
                  Inr result \<Rightarrow> ([CheckConfig, Validate, CheckOnline, Xhr], Inr result)
                | Inl error \<Rightarrow>
                    if retryCount < MAX_RETRIES \<and> isRetryableError error then
                      (case uploadToCloudinary e blob (retryCount + 1) of
                         (later, outcome) \<Rightarrow>
                           ([CheckConfig, Validate, CheckOnline, Xhr,
                             Sleep (RETRY_DELAY * (retryCount + 1))] @ later, outcome))
                    else ([CheckConfig, Validate, CheckOnline, Xhr], Inl error))))"
  by pat_completeness auto
termination
  by (relation "measure (\<lambda>(e, blob, retryCount). MAX_RETRIES - retryCount)") auto

declare uploadToCloudinary.simps [simp del]

section \<open>The storage module\<close>

text \<open>
  The object store \<open>videos\<close> has the key path \<open>id\<close>: it holds records, at most one for
  an id, and returns them in ascending order of the id. \<open>put\<close> replaces the record
  that has the id of the new one.
\<close>

record video =
  video_id :: string
  blob :: blob
  createdAt :: nat
  uploaded :: bool

type_synonym store = "video list"

definition db_get :: "store \<Rightarrow> string \<Rightarrow> video option" where
  "db_get st k = find (\<lambda>v. video_id v = k) st"

definition db_put :: "store \<Rightarrow> video \<Rightarrow> store" where
  "db_put st v = insort_key video_id v (filter (\<lambda>w. video_id w \<noteq> video_id v) st)"

definition db_delete :: "store \<Rightarrow> string \<Rightarrow> store" where
  "db_delete st k = filter (\<lambda>w. video_id w \<noteq> k) st"

definition db_getAll :: "store \<Rightarrow> video list" where
  "db_getAll st = st"

text \<open>
  Each exported function is run to its end. A call of the database either rejects with
  the error the environment gives for it (the first arguments: \<open>None\<close> when the call
  goes through) or takes effect. \<open>saveVideo\<close> reads the clock twice.
\<close>

definition saveVideo ::
  "js_error option \<Rightarrow> store \<Rightarrow> blob \<Rightarrow> nat \<Rightarrow> nat \<Rightarrow> js_error + (store \<times> string)" where
  "saveVideo put_fault st b now1 now2 =
     (let i = ''video-'' @ show_nat now1;
          video = \<lparr>video_id = i, blob = b, createdAt = now2, uploaded = False\<rparr>
      in case put_fault of
           Some err \<Rightarrow> Inl err
         | None \<Rightarrow> Inr (db_put st video, i))"

definition getVideos :: "js_error option \<Rightarrow> store \<Rightarrow> js_error + video list" where
  "getVideos getAll_fault st =
     (case getAll_fault of Some err \<Rightarrow> Inl err | None \<Rightarrow> Inr (db_getAll st))"

definition deleteVideo :: "js_error option \<Rightarrow> store \<Rightarrow> string \<Rightarrow> js_error + store" where
  "deleteVideo delete_fault st i =
     (case delete_fault of Some err \<Rightarrow> Inl err | None \<Rightarrow> Inr (db_delete st i))"

definition updateVideo ::
  "js_error option \<Rightarrow> js_error option \<Rightarrow> store \<Rightarrow> string \<Rightarrow> bool \<Rightarrow> js_error + store" where
  "updateVideo get_fault put_fault st i up =
     (case get_fault of
        Some err \<Rightarrow> Inl err
      | None \<Rightarrow>
          (case db_get st i of
             None \<Rightarrow> Inr st
           | Some video \<Rightarrow>
               (case put_fault of
                  Some err \<Rightarrow> Inl err
                | None \<Rightarrow> Inr (db_put st (video\<lparr>uploaded := up\<rparr>)))))"

section \<open>The handlers of the application\<close>

text \<open>
  The state setters of the user interface touch neither the store nor the network and
  are left out; so is the text of an alert.
\<close>

definition new_Blob :: "blob list \<Rightarrow> string \<Rightarrow> blob" where
  "new_Blob parts t = \<lparr>blob_size = sum_list (map blob_size parts), blob_type = t\<rparr>"

record stop_env =
  timer_set :: bool
  preview_mounted :: bool
  chunks :: "blob list"
  save_fault :: "js_error option"
  list_fault :: "js_error option"
  now_id :: nat
  now_created :: nat

text \<open>\<open>mediaRecorder.onstop\<close>: the steps taken, and the store left behind or the error thrown.\<close>

definition onstop :: "stop_env \<Rightarrow> store \<Rightarrow> event list \<times> (js_error + store)" where
  "onstop s st =
     (let first = (if timer_set s then [ClearInterval] else []);
          b = new_Blob (chunks s) ''video/webm''
      in case saveVideo (save_fault s) st b (now_id s) (now_created s) of
           Inl err \<Rightarrow> (first @ [AwaitSaveVideo b], Inl err)
         | Inr (st', i) \<Rightarrow>
             (case getVideos (list_fault s) st' of
                Inl err \<Rightarrow> (first @ [AwaitSaveVideo b, AwaitGetVideos], Inl err)
              | Inr storedVideos \<Rightarrow>
                  (first @ [AwaitSaveVideo b, AwaitGetVideos, StopTracks]
                     @ (if preview_mounted s then [ClearPreview] else []),
                   Inr st')))"

record click_env =
  online_at_click :: bool
  find_fault :: "js_error option"
  get_fault :: "js_error option"
  put_fault :: "js_error option"

text \<open>
  \<open>uploadVideo\<close>: the steps taken and the store left behind. Every error thrown inside
  its \<open>try\<close> ends in an alert, and so does the success; the listing after the update
  leads to an alert whether it fails or not.
\<close>

definition uploadVideo :: "click_env \<Rightarrow> env \<Rightarrow> store \<Rightarrow> string \<Rightarrow> event list \<times> store" where
  "uploadVideo c e st i =
     (if \<not> online_at_click c then ([Alert], st)
      else
        (case getVideos (find_fault c) st of
           Inl err \<Rightarrow> ([AwaitGetVideos, Alert], st)
         | Inr videoList \<Rightarrow>
             (case find (\<lambda>v. video_id v = i) videoList of
                None \<Rightarrow> ([AwaitGetVideos, Alert], st)
              | Some video \<Rightarrow>
                  (case uploadToCloudinary e (Some (blob video)) 0 of
                     (steps, Inl err) \<Rightarrow> ([AwaitGetVideos] @ steps @ [Alert], st)
                   | (steps, Inr result) \<Rightarrow>
                       if success result then
                         (case updateVideo (get_fault c) (put_fault c) st i True of
                            Inl err \<Rightarrow>
                              ([AwaitGetVideos] @ steps @ [AwaitUpdateVideo i True, Alert], st)
                          | Inr st' \<Rightarrow>
                              ([AwaitGetVideos] @ steps
                                 @ [AwaitUpdateVideo i True, AwaitGetVideos, Alert], st'))
                       else ([AwaitGetVideos] @ steps, st)))))"

text \<open>
  The calls of the storage module as the application makes them: the stop handler
  saves, \<open>loadVideos\<close> lists, \<open>handleDelete\<close> deletes, and \<open>uploadVideo\<close> lists and
  marks a clip as uploaded (\<open>updateVideo(id, true)\<close>). A call that fails leaves the
  store as it was.
\<close>

datatype store_call =
    SaveVideoCall "js_error option" blob nat nat
  | GetVideosCall "js_error option"
  | DeleteVideoCall "js_error option" string
  | UpdateVideoCall "js_error option" "js_error option" string

fun apply_call :: "store \<Rightarrow> store_call \<Rightarrow> store" where
  "apply_call st (SaveVideoCall f b now1 now2) =
     (case saveVideo f st b now1 now2 of Inl err \<Rightarrow> st | Inr (st', i) \<Rightarrow> st')"
| "apply_call st (GetVideosCall f) = st"
| "apply_call st (DeleteVideoCall f i) =
     (case deleteVideo f st i of Inl err \<Rightarrow> st | Inr st' \<Rightarrow> st')"
| "apply_call st (UpdateVideoCall fg fp i) =
     (case updateVideo fg fp st i True of Inl err \<Rightarrow> st | Inr st' \<Rightarrow> st')"

definition run_calls :: "store \<Rightarrow> store_call list \<Rightarrow> store" where
  "run_calls st cs = foldl apply_call st cs"



section \<open>Notions used in the statements\<close>

text \<open>
  The configuration is present and the payload passes validation: the first two checks
  of \<open>uploadToCloudinary\<close> let the invocation through.
\<close>

definition passes_checks :: "env \<Rightarrow> blob option \<Rightarrow> bool" where
  "passes_checks e payload =
     (\<not> unset (cloud_name e) \<and> \<not> unset (upload_preset e)
      \<and> (case validateVideo e payload of Inl err \<Rightarrow> False | Inr v \<Rightarrow> valid v))"

text \<open>The invocation whose count is \<open>r\<close> reaches the retry.\<close>

definition retries_at :: "env \<Rightarrow> blob option \<Rightarrow> nat \<Rightarrow> bool" where
  "retries_at e payload r =
     (passes_checks e payload \<and> onLine e r
      \<and> (case try_block e (xhr e r) of
            Inl err \<Rightarrow> r < 3 \<and> isRetryableError err
          | Inr res \<Rightarrow> False))"

text \<open>The delays of a run, in milliseconds, in the order they are waited.\<close>

fun sleeps :: "event list \<Rightarrow> nat list" where
  "sleeps [] = []"
| "sleeps (Sleep ms # es) = ms # sleeps es"
| "sleeps (ev # es) = sleeps es"

section \<open>Concrete inputs\<close>

definition webm :: blob where
  "webm = \<lparr>blob_size = 2048, blob_type = ''video/webm''\<rparr>"

definition empty_text :: blob where
  "empty_text = \<lparr>blob_size = 0, blob_type = ''text/plain''\<rparr>"

definition clip :: "nat \<Rightarrow> bool \<Rightarrow> video" where
  "clip n up = \<lparr>video_id = ''video-'' @ show_nat n, blob = webm, createdAt = n, uploaded = up\<rparr>"

text \<open>An environment with the configuration set and the error texts of V8.\<close>

definition v8_env :: "(nat \<Rightarrow> bool) \<Rightarrow> (nat \<Rightarrow> xhr_outcome) \<Rightarrow> env" where
  "v8_env reach settle =
     \<lparr>cloud_name = Some ''demo'', upload_preset = Some ''unsigned'',
      onLine = reach, xhr = settle,
      formatBytes = (\<lambda>n. show_nat n @ '' Bytes''),
      null_read_msg =
        (\<lambda>p. ''Cannot read properties of null (reading '' @ [CHR 0x27] @ p @ [CHR 0x27] @ '')''),
      to_primitive_msg = ''Cannot convert object to primitive value''\<rparr>"

definition upload_reply :: json where
  "upload_reply =
     JObj [(''secure_url'', JStr ''https://res.cloudinary.com/demo/video/upload/v1/clip.webm''),
           (''public_id'', JStr ''clip'')]"

definition bad_preset_body :: json where
  "bad_preset_body = JObj [(''error'', JObj [(''message'', JStr ''bad preset'')])]"

text \<open>Every request fails on the network.\<close>

definition failing_env :: env where
  "failing_env = v8_env (\<lambda>r. True) (\<lambda>r. NetworkFailure)"

text \<open>The first request fails on the network, the second one succeeds.\<close>

definition flaky_env :: env where
  "flaky_env = v8_env (\<lambda>r. True) (\<lambda>r. if r = 0 then NetworkFailure else Load 200 (Parsed upload_reply))"

text \<open>The first request fails on the network, and the browser is offline from then on.\<close>

definition dropping_env :: env where
  "dropping_env = v8_env (\<lambda>r. r = 0) (\<lambda>r. NetworkFailure)"

definition offline_env :: env where
  "offline_env = v8_env (\<lambda>r. False) (\<lambda>r. NetworkFailure)"

definition unconfigured_env :: env where
  "unconfigured_env = (v8_env (\<lambda>r. True) (\<lambda>r. NetworkFailure))\<lparr>cloud_name := None\<rparr>"

text \<open>Every request is answered 400 with the body of the bad-preset example.\<close>

definition bad_preset_env :: env where
  "bad_preset_env = v8_env (\<lambda>r. True) (\<lambda>r. Load 400 (Parsed bad_preset_body))"

text \<open>Every request is answered 400 with the body \<open>null\<close>.\<close>

definition null_body_env :: env where
  "null_body_env = v8_env (\<lambda>r. True) (\<lambda>r. Load 400 (Parsed JNull))"

definition quota_error :: js_error where
  "quota_error = Thrown JsDOMException ''QuotaExceededError''"

text \<open>A stop of a recording of two chunks, at clock reading 5, with the storage working.\<close>

definition quick_stop :: stop_env where
  "quick_stop =
     \<lparr>timer_set = True, preview_mounted = True,
      chunks = [\<lparr>blob_size = 1024, blob_type = ''video/webm''\<rparr>,
                \<lparr>blob_size = 1024, blob_type = ''video/webm''\<rparr>],
      save_fault = None, list_fault = None, now_id = 5, now_created = 5\<rparr>"

definition full_stop :: stop_env where
  "full_stop = quick_stop\<lparr>save_fault := Some quota_error\<rparr>"

definition click :: click_env where
  "click = \<lparr>online_at_click = True, find_fault = None, get_fault = None, put_fault = None\<rparr>"

section \<open>Properties of validateVideo\<close>

lemma validation_messages_distinct:
  "empty_msg \<noteq> size_msg e n" "empty_msg \<noteq> type_msg" "size_msg e n \<noteq> type_msg"
  by (simp_all add: empty_msg_def size_msg_def type_msg_def)

text \<open>
  C3. For a payload that is present, validation returns a result; the result is invalid
  exactly when the payload has zero bytes, or more than 100 * 1024 * 1024 bytes, or a
  media type that does not start with \<open>video/\<close>; each of the three violations has a
  message of its own, the messages differ from one another, and the result lists
  exactly the messages of the violations that hold.
\<close>

theorem validateVideo_violations:
  "\<exists>v. validateVideo e (Some b) = Inr v
     \<and> (valid v \<longleftrightarrow> \<not> (blob_size b = 0 \<or> blob_size b > 100 * 1024 * 1024
                          \<or> \<not> prefix ''video/'' (blob_type b)))
     \<and> (valid v \<longleftrightarrow> errors v = [])
     \<and> (empty_msg \<in> set (errors v) \<longleftrightarrow> blob_size b = 0)
     \<and> (size_msg e (blob_size b) \<in> set (errors v) \<longleftrightarrow> blob_size b > 100 * 1024 * 1024)
     \<and> (type_msg \<in> set (errors v) \<longleftrightarrow> \<not> prefix ''video/'' (blob_type b))
     \<and> set (errors v) \<subseteq> {empty_msg, size_msg e (blob_size b), type_msg}
     \<and> distinct (errors v)
     \<and> distinct [empty_msg, size_msg e (blob_size b), type_msg]"
  using validation_messages_distinct validation_messages_distinct [symmetric]
  by (auto simp add: validateVideo_def Let_def MAX_FILE_SIZE_def)

theorem validateVideo_violations_witness:
  "validateVideo failing_env (Some empty_text) = Inr \<lparr>valid = False, errors = [empty_msg, type_msg]\<rparr>
   \<and> validateVideo failing_env (Some webm) = Inr \<lparr>valid = True, errors = []\<rparr>"
  using validateVideo_violations [of failing_env empty_text]
    validateVideo_violations [of failing_env webm]
  by (simp add: validateVideo_def empty_text_def webm_def MAX_FILE_SIZE_def)

text \<open>
  C10. For an absent payload \<open>validateVideo\<close> does not return a result: it throws the
  \<open>TypeError\<close> of reading \<open>size\<close> of \<open>null\<close>.
\<close>

theorem validateVideo_absent_throws:
  "validateVideo e None = Inl (Thrown JsTypeError (null_read_msg e ''size''))"
  by (simp add: validateVideo_def)

section \<open>Properties of the storage module\<close>

lemma find_insort_key_other:
  "\<not> P v \<Longrightarrow> find P (insort_key f v xs) = find P xs"
  by (induction xs) auto

lemma find_insort_key_self:
  "P v \<Longrightarrow> find P xs = None \<Longrightarrow> find P (insort_key f v xs) = Some v"
  by (induction xs) (auto split: if_splits)

lemma find_filter_keep:
  "(\<And>x. P x \<Longrightarrow> Q x) \<Longrightarrow> find P (filter Q xs) = find P xs"
  by (induction xs) auto

lemma find_filter_drop:
  "(\<And>x. Q x \<Longrightarrow> \<not> P x) \<Longrightarrow> find P (filter Q xs) = None"
  by (induction xs) auto

lemma filter_insort_key_other:
  "\<not> P v \<Longrightarrow> filter P (insort_key f v xs) = filter P xs"
  by (induction xs) auto

lemma db_get_id: "db_get st k = Some v \<Longrightarrow> video_id v = k"
  by (auto simp: db_get_def find_Some_iff)

lemma db_get_put:
  "db_get (db_put st v) k = (if k = video_id v then Some v else db_get st k)"
  by (auto simp: db_get_def db_put_def find_insort_key_other find_insort_key_self
        find_filter_keep find_filter_drop)

lemma db_get_delete:
  "db_get (db_delete st d) k = (if k = d then None else db_get st k)"
  by (auto simp: db_get_def db_delete_def find_filter_keep find_filter_drop)

lemma others_put:
  "filter (\<lambda>w. video_id w \<noteq> video_id v) (db_put st v)
     = filter (\<lambda>w. video_id w \<noteq> video_id v) st"
  by (simp add: db_put_def filter_insort_key_other)

lemma show_nat_digit: "n < 10 \<Longrightarrow> show_nat n = [digit_char n]"
  by (simp add: show_nat.simps)

lemma show_nat_more:
  "\<not> n < 10 \<Longrightarrow> show_nat n = show_nat (n div 10) @ [digit_char (n mod 10)]"
  by (subst show_nat.simps) simp

lemmas show_nat_eval = show_nat_digit show_nat_more digit_char_def

text \<open>
  C7. When no record has the id, \<open>updateVideo\<close> returns without an error and leaves the
  store as it is, whatever a write would have met (it makes none); so after
  \<open>deleteVideo(id)\<close> the call \<open>updateVideo(id, true)\<close> leaves the store without a record
  of that id. (The read of the database is taken to go through.)
\<close>

theorem updateVideo_absent_noop:
  "(db_get st i = None \<longrightarrow> updateVideo None pf st i up = Inr st)
   \<and> (\<exists>st'. deleteVideo None st i = Inr st' \<and> updateVideo None pf st' i True = Inr st'
          \<and> db_get st' i = None)"
  by (simp add: updateVideo_def deleteVideo_def db_get_delete)

theorem updateVideo_absent_noop_witness:
  "db_get [clip 7 True] ''video-5'' = None
   \<and> updateVideo None (Some quota_error) [clip 7 True] ''video-5'' True = Inr [clip 7 True]
   \<and> deleteVideo None [clip 5 True, clip 7 True] ''video-5'' = Inr [clip 7 True]
   \<and> updateVideo None None [clip 7 True] ''video-5'' True = Inr [clip 7 True]"
  using updateVideo_absent_noop [of "[clip 7 True]" "''video-5''" "Some quota_error" True]
    updateVideo_absent_noop [of "[clip 5 True, clip 7 True]" "''video-5''" None True]
  by (simp add: db_get_def deleteVideo_def db_delete_def clip_def show_nat_eval)

text \<open>
  C8. When a record has the id, \<open>updateVideo\<close> (with the database working) leaves at
  that id the same record with only \<open>uploaded\<close> set to the given value: its id, its
  \<open>createdAt\<close> and its blob are those it had; the lookup of every other id gives what
  it gave before, and the records of the other ids are listed as before.
\<close>

theorem updateVideo_frame:
  assumes "db_get st i = Some v"
  shows "\<exists>st'. updateVideo None None st i up = Inr st'
     \<and> db_get st' i = Some (v\<lparr>uploaded := up\<rparr>)
     \<and> video_id (v\<lparr>uploaded := up\<rparr>) = i
     \<and> createdAt (v\<lparr>uploaded := up\<rparr>) = createdAt v
     \<and> blob (v\<lparr>uploaded := up\<rparr>) = blob v
     \<and> (\<forall>k. k \<noteq> i \<longrightarrow> db_get st' k = db_get st k)
     \<and> filter (\<lambda>w. video_id w \<noteq> i) (db_getAll st')
         = filter (\<lambda>w. video_id w \<noteq> i) (db_getAll st)"
  using assms db_get_id [OF assms] others_put [of "v\<lparr>uploaded := up\<rparr>" st]
  by (auto simp: updateVideo_def db_get_put db_getAll_def)

theorem updateVideo_frame_witness:
  "db_get [clip 5 False, clip 7 False] ''video-7'' = Some (clip 7 False)
   \<and> updateVideo None None [clip 5 False, clip 7 False] ''video-7'' True
       = Inr [clip 5 False, clip 7 True]
   \<and> db_get [clip 5 False, clip 7 True] ''video-5'' = Some (clip 5 False)"
  using updateVideo_frame [of "[clip 5 False, clip 7 False]" "''video-7''" "clip 7 False" True]
  by (simp add: db_get_def updateVideo_def db_put_def clip_def show_nat_eval)




text \<open>The handlers change the store by the calls of \<^const>\<open>apply_call\<close> only.\<close>

lemma uploadVideo_store:
  "snd (uploadVideo c e st i) = st
   \<or> snd (uploadVideo c e st i) = apply_call st (UpdateVideoCall (get_fault c) (put_fault c) i)"
  by (auto simp: uploadVideo_def getVideos_def split: option.splits sum.splits prod.splits)

lemma onstop_store:
  "snd (onstop s st) = Inr st' \<Longrightarrow>
     st' = apply_call st (SaveVideoCall (save_fault s) (new_Blob (chunks s) ''video/webm'')
                            (now_id s) (now_created s))"
  by (auto simp: onstop_def Let_def getVideos_def split: option.splits sum.splits prod.splits)






text \<open>
  What the condition on the saves leaves out: a save that reads the clock reading of an
  earlier save makes the same id, and \<open>put\<close> then replaces the earlier clip by the new
  one. The record found at the id afterwards is the new clip, with the blob and the
  \<open>createdAt\<close> of the second save; the earlier clip is no longer in the store.
\<close>

lemma colliding_save_replaces_clip:
  "db_get (run_calls [] [SaveVideoCall None webm 5 5, UpdateVideoCall None None ''video-5''])
       ''video-5''
     = Some \<lparr>video_id = ''video-5'', blob = webm, createdAt = 5, uploaded = True\<rparr>
   \<and> db_get (run_calls [] [SaveVideoCall None webm 5 5, UpdateVideoCall None None ''video-5'',
                           SaveVideoCall None empty_text 5 6])
       ''video-5''
     = Some \<lparr>video_id = ''video-5'', blob = empty_text, createdAt = 6, uploaded = False\<rparr>"
  by (simp add: db_get_def run_calls_def saveVideo_def updateVideo_def
        db_put_def show_nat_eval Let_def)

section \<open>Properties of the stop handler and of uploadVideo\<close>

lemma onstop_success:
  assumes "onstop s st = (steps, Inr st')"
  shows "\<exists>v before after. steps = before @ AwaitSaveVideo (blob v) # after
         \<and> StopTracks \<notin> set before \<and> StopTracks \<in> set after \<and> Xhr \<notin> set steps
         \<and> blob v = new_Blob (chunks s) ''video/webm'' \<and> uploaded v = False
         \<and> db_get st' (video_id v) = Some v"
proof -
  let ?b = "new_Blob (chunks s) ''video/webm''"
  let ?v = "\<lparr>video_id = ''video-'' @ show_nat (now_id s), blob = ?b,
             createdAt = now_created s, uploaded = False\<rparr>"
  let ?first = "if timer_set s then [ClearInterval] else []"
  let ?after = "[AwaitGetVideos, StopTracks] @ (if preview_mounted s then [ClearPreview] else [])"
  from assms have "steps = ?first @ AwaitSaveVideo (blob ?v) # ?after" and "st' = db_put st ?v"
    by (auto simp: onstop_def Let_def saveVideo_def getVideos_def db_getAll_def
          split: option.splits)
  then have "steps = ?first @ AwaitSaveVideo (blob ?v) # ?after
         \<and> StopTracks \<notin> set ?first \<and> StopTracks \<in> set ?after \<and> Xhr \<notin> set steps
         \<and> blob ?v = new_Blob (chunks s) ''video/webm'' \<and> uploaded ?v = False
         \<and> db_get st' (video_id ?v) = Some ?v"
    by (simp add: db_get_put)
  then show ?thesis by blast
qed

lemma onstop_failure:
  assumes "onstop s st = (steps, Inl err)"
  shows "StopTracks \<notin> set steps \<and> Xhr \<notin> set steps"
  using assms
  by (auto simp: onstop_def Let_def saveVideo_def getVideos_def split: option.splits)

lemma uploadVideo_absent:
  assumes "db_get st i = None"
  shows "Xhr \<notin> set (fst (uploadVideo c e st i)) \<and> snd (uploadVideo c e st i) = st"
  using assms
  by (auto simp: uploadVideo_def getVideos_def db_getAll_def db_get_def split: option.splits)

text \<open>
  C1. When the stop handler runs to its end, its steps hold the awaited \<open>saveVideo\<close> of
  the recorded payload before the release of the tracks, no request to the network is
  among them, and the store it leaves holds the record of that payload with
  \<open>uploaded = false\<close>. When the handler ends in an error (of the save, or of the listing
  after it) the tracks have not been released by it. \<open>uploadVideo\<close> of an id
  that has no record in the store makes no request and leaves the store as it is.
\<close>

theorem recording_saved_before_release:
  "(onstop s st = (steps, Inr st') \<longrightarrow>
      (\<exists>v before after. steps = before @ AwaitSaveVideo (blob v) # after
         \<and> StopTracks \<notin> set before \<and> StopTracks \<in> set after \<and> Xhr \<notin> set steps
         \<and> blob v = new_Blob (chunks s) ''video/webm'' \<and> uploaded v = False
         \<and> db_get st' (video_id v) = Some v))
   \<and> (onstop s st = (steps, Inl err) \<longrightarrow> StopTracks \<notin> set steps \<and> Xhr \<notin> set steps)
   \<and> (db_get st i = None \<longrightarrow>
        Xhr \<notin> set (fst (uploadVideo c e st i)) \<and> snd (uploadVideo c e st i) = st)"
  using onstop_success [of s st steps st'] onstop_failure [of s st steps err]
    uploadVideo_absent [of st i c e]
  by blast

theorem recording_saved_before_release_witness:
  "onstop quick_stop [] =
     ([ClearInterval, AwaitSaveVideo webm, AwaitGetVideos, StopTracks, ClearPreview],
      Inr [clip 5 False])
   \<and> onstop full_stop [clip 5 False] = ([ClearInterval, AwaitSaveVideo webm], Inl quota_error)
   \<and> db_get [clip 5 False] ''video-7'' = None
   \<and> uploadVideo click failing_env [clip 5 False] ''video-7''
       = ([AwaitGetVideos, Alert], [clip 5 False])"
  using recording_saved_before_release [of quick_stop "[]"
      "[ClearInterval, AwaitSaveVideo webm, AwaitGetVideos, StopTracks, ClearPreview]"
      "[clip 5 False]" quota_error "''video-7''" click failing_env]
    recording_saved_before_release [of full_stop "[clip 5 False]"
      "[ClearInterval, AwaitSaveVideo webm]" "[]" quota_error "''video-7''" click failing_env]
  by (simp add: onstop_def quick_stop_def full_stop_def new_Blob_def webm_def saveVideo_def
        getVideos_def db_getAll_def db_put_def clip_def show_nat_eval Let_def
        uploadVideo_def click_def db_get_def)

section \<open>Properties of uploadToCloudinary\<close>

subsection \<open>One invocation\<close>

lemma config_stop:
  "unset (cloud_name e) \<or> unset (upload_preset e) \<Longrightarrow>
     uploadToCloudinary e payload r = ([CheckConfig], Inl (Thrown JsError CONFIG_MSG))"
  by (subst uploadToCloudinary.simps) simp

lemma validation_throw_stop:
  "\<not> unset (cloud_name e) \<Longrightarrow> \<not> unset (upload_preset e) \<Longrightarrow>
   validateVideo e payload = Inl err \<Longrightarrow>
     uploadToCloudinary e payload r = ([CheckConfig, Validate], Inl err)"
  by (subst uploadToCloudinary.simps) simp

lemma validation_stop:
  "\<not> unset (cloud_name e) \<Longrightarrow> \<not> unset (upload_preset e) \<Longrightarrow>
   validateVideo e payload = Inr v \<Longrightarrow> \<not> valid v \<Longrightarrow>
     uploadToCloudinary e payload r =
       ([CheckConfig, Validate], Inl (Thrown JsError (js_join ''. '' (errors v))))"
  by (subst uploadToCloudinary.simps) simp

lemma offline_stop:
  "passes_checks e payload \<Longrightarrow> \<not> onLine e r \<Longrightarrow>
     uploadToCloudinary e payload r =
       ([CheckConfig, Validate, CheckOnline], Inl (Thrown JsError OFFLINE_MSG))"
  by (subst uploadToCloudinary.simps)
     (auto simp: passes_checks_def isOnline_def split: sum.splits)

lemma success_stop:
  "passes_checks e payload \<Longrightarrow> onLine e r \<Longrightarrow> try_block e (xhr e r) = Inr res \<Longrightarrow>
     uploadToCloudinary e payload r = ([CheckConfig, Validate, CheckOnline, Xhr], Inr res)"
  by (subst uploadToCloudinary.simps)
     (auto simp: passes_checks_def isOnline_def split: sum.splits)

lemma failure_stop:
  "passes_checks e payload \<Longrightarrow> onLine e r \<Longrightarrow> try_block e (xhr e r) = Inl err \<Longrightarrow>
   \<not> (r < 3 \<and> isRetryableError err) \<Longrightarrow>
     uploadToCloudinary e payload r = ([CheckConfig, Validate, CheckOnline, Xhr], Inl err)"
  by (subst uploadToCloudinary.simps)
     (auto simp: passes_checks_def isOnline_def MAX_RETRIES_def split: sum.splits)

lemma failure_retry:
  "passes_checks e payload \<Longrightarrow> onLine e r \<Longrightarrow> try_block e (xhr e r) = Inl err \<Longrightarrow>
   r < 3 \<Longrightarrow> isRetryableError err \<Longrightarrow>
     uploadToCloudinary e payload r =
       ([CheckConfig, Validate, CheckOnline, Xhr, Sleep (2000 * (r + 1))]
          @ fst (uploadToCloudinary e payload (r + 1)),
        snd (uploadToCloudinary e payload (r + 1)))"
  by (subst uploadToCloudinary.simps)
     (auto simp: passes_checks_def isOnline_def MAX_RETRIES_def RETRY_DELAY_def
        split: prod.splits sum.splits)

lemma retry_unfold:
  "retries_at e payload r \<Longrightarrow>
     uploadToCloudinary e payload r =
       ([CheckConfig, Validate, CheckOnline, Xhr, Sleep (2000 * (r + 1))]
          @ fst (uploadToCloudinary e payload (r + 1)),
        snd (uploadToCloudinary e payload (r + 1)))"
proof -
  assume "retries_at e payload r"
  then obtain err where "passes_checks e payload" "onLine e r" "try_block e (xhr e r) = Inl err"
    "r < 3" "isRetryableError err"
    by (auto simp: retries_at_def split: sum.splits)
  then show ?thesis by (rule failure_retry)
qed

lemma settle_passed:
  assumes "\<not> retries_at e payload r" and p: "passes_checks e payload"
  shows "fst (uploadToCloudinary e payload r) \<in>
           {[CheckConfig, Validate, CheckOnline], [CheckConfig, Validate, CheckOnline, Xhr]}"
proof (cases "onLine e r")
  case False
  with p show ?thesis by (simp add: offline_stop)
next
  case True
  show ?thesis
  proof (cases "try_block e (xhr e r)")
    case (Inr res)
    with p True show ?thesis by (simp add: success_stop)
  next
    case (Inl err)
    with p True assms have "\<not> (r < 3 \<and> isRetryableError err)"
      by (auto simp: retries_at_def)
    with p True Inl show ?thesis by (simp add: failure_stop)
  qed
qed

lemma settle_unfold:
  assumes "\<not> retries_at e payload r"
  shows "fst (uploadToCloudinary e payload r) \<in>
           {[CheckConfig], [CheckConfig, Validate], [CheckConfig, Validate, CheckOnline],
            [CheckConfig, Validate, CheckOnline, Xhr]}"
proof (cases "passes_checks e payload")
  case True
  with settle_passed [OF assms] show ?thesis by blast
next
  case False
  show ?thesis
  proof (cases "unset (cloud_name e) \<or> unset (upload_preset e)")
    case True
    then show ?thesis by (simp add: config_stop)
  next
    case cfg: False
    show ?thesis
    proof (cases "validateVideo e payload")
      case (Inl err)
      with cfg show ?thesis by (simp add: validation_throw_stop)
    next
      case (Inr v)
      with cfg False have "\<not> valid v" by (simp add: passes_checks_def)
      with cfg Inr show ?thesis by (simp add: validation_stop)
    qed
  qed
qed

lemma retries_at_bound: "retries_at e payload r \<Longrightarrow> r < 3"
  by (auto simp: retries_at_def split: sum.splits)

lemma retries_at_passes: "retries_at e payload r \<Longrightarrow> passes_checks e payload"
  by (auto simp: retries_at_def)

lemma messages_differ:
  assumes "validateVideo e payload = Inr v" and "\<not> valid v"
  shows "js_join ''. '' (errors v) \<noteq> CONFIG_MSG" and "js_join ''. '' (errors v) \<noteq> OFFLINE_MSG"
  using assms
  by (auto simp: validateVideo_def Let_def CONFIG_MSG_def OFFLINE_MSG_def empty_msg_def
        size_msg_def type_msg_def split: option.splits if_splits)

lemma config_offline_differ: "CONFIG_MSG \<noteq> OFFLINE_MSG"
  by (simp add: CONFIG_MSG_def OFFLINE_MSG_def)

subsection \<open>The retry chain\<close>

text \<open>An induction principle that follows the retry chain.\<close>

lemma retry_induct [case_names step]:
  assumes step: "\<And>r. (retries_at e payload r \<Longrightarrow> P (Suc r)) \<Longrightarrow> P r"
  shows "P r"
proof -
  have "P r" if "3 - r = n" for n
    using that
  proof (induction n arbitrary: r)
    case 0
    then have "\<not> retries_at e payload r" by (auto dest: retries_at_bound)
    then show ?case using step [of r] by blast
  next
    case (Suc n)
    then have "3 - Suc r = n" by simp
    then have "P (Suc r)" by (rule Suc.IH)
    then show ?case by (rule step)
  qed
  then show ?thesis by simp
qed

lemma trace_closed_form:
  "\<exists>k fin. (k = 0 \<or> r + k \<le> 3)
     \<and> fst (uploadToCloudinary e payload r) =
         concat (map (\<lambda>n. [CheckConfig, Validate, CheckOnline, Xhr, Sleep (2000 * (n + 1))])
                   [r..<r + k]) @ fin
     \<and> fin \<in> {[CheckConfig], [CheckConfig, Validate], [CheckConfig, Validate, CheckOnline],
               [CheckConfig, Validate, CheckOnline, Xhr]}
     \<and> (passes_checks e payload \<longrightarrow>
          fin \<in> {[CheckConfig, Validate, CheckOnline], [CheckConfig, Validate, CheckOnline, Xhr]})
     \<and> (0 < k \<longrightarrow> passes_checks e payload)"
  (is "?P r")
proof (induct r rule: retry_induct [where e = e and payload = payload])
  case (step r)
  note IH = step
  let ?round = "\<lambda>n. [CheckConfig, Validate, CheckOnline, Xhr, Sleep (2000 * (n + 1))]"
  show ?case
  proof (cases "retries_at e payload r")
    case False
    let ?fin = "fst (uploadToCloudinary e payload r)"
    have "?fin \<in> {[CheckConfig], [CheckConfig, Validate],
          [CheckConfig, Validate, CheckOnline], [CheckConfig, Validate, CheckOnline, Xhr]}"
      by (rule settle_unfold [OF False])
    moreover have "passes_checks e payload \<longrightarrow>
          ?fin \<in> {[CheckConfig, Validate, CheckOnline], [CheckConfig, Validate, CheckOnline, Xhr]}"
      using settle_passed [OF False] by (rule impI)
    ultimately show ?thesis
      by (intro exI [of _ 0] exI [of _ ?fin]) simp
  next
    case True
    from IH [OF True] obtain k fin where
      k: "k = 0 \<or> Suc r + k \<le> 3"
      and tr: "fst (uploadToCloudinary e payload (Suc r))
                 = concat (map ?round [Suc r..<Suc r + k]) @ fin"
      and fin: "fin \<in> {[CheckConfig], [CheckConfig, Validate], [CheckConfig, Validate, CheckOnline],
               [CheckConfig, Validate, CheckOnline, Xhr]}"
      and fin2: "passes_checks e payload \<longrightarrow>
          fin \<in> {[CheckConfig, Validate, CheckOnline], [CheckConfig, Validate, CheckOnline, Xhr]}"
      by blast
    have b: "r < 3" using True by (rule retries_at_bound)
    have p: "passes_checks e payload" using True by (rule retries_at_passes)
    have "fst (uploadToCloudinary e payload r)
            = ?round r @ fst (uploadToCloudinary e payload (Suc r))"
      using retry_unfold [OF True] by simp
    also have "\<dots> = ?round r @ concat (map ?round [Suc r..<Suc r + k]) @ fin"
      by (simp only: tr)
    also have "\<dots> = concat (map ?round [r..<r + Suc k]) @ fin"
      by (simp add: upt_conv_Cons)
    finally have "fst (uploadToCloudinary e payload r) = concat (map ?round [r..<r + Suc k]) @ fin" .
    moreover have "Suc k = 0 \<or> r + Suc k \<le> 3" using k b by auto
    ultimately show ?thesis
      using fin fin2 p by (intro exI [of _ "Suc k"] exI [of _ fin]) simp
  qed
qed

lemma sleeps_append: "sleeps (xs @ ys) = sleeps xs @ sleeps ys"
  by (induction xs rule: sleeps.induct) auto

lemma sleeps_rounds:
  "sleeps (concat (map (\<lambda>n. [CheckConfig, Validate, CheckOnline, Xhr, Sleep (2000 * (n + 1))]) ns))
     = map (\<lambda>n. 2000 * (n + 1)) ns"
  by (induction ns) auto

lemma count_rounds:
  "count_list (concat (map (\<lambda>n. [CheckConfig, Validate, CheckOnline, Xhr, Sleep (2000 * (n + 1))]) ns)) Xhr
     = length ns"
  by (induction ns) auto

lemma sleeps_settle:
  assumes "\<not> retries_at e payload r"
  shows "sleeps (fst (uploadToCloudinary e payload r)) = []"
  using settle_unfold [OF assms] by auto

lemma retried_only_if:
  assumes "sleeps (fst (uploadToCloudinary e payload r)) \<noteq> []"
  shows "\<exists>x. try_block e (xhr e r) = Inl x \<and> isRetryableError x \<and> r < 3"
proof -
  from assms have "retries_at e payload r"
    using sleeps_settle by blast
  then show ?thesis by (auto simp: retries_at_def split: sum.splits)
qed

lemma isRetryableError_iff:
  "isRetryableError err \<longleftrightarrow>
     (\<exists>p \<in> set [''network error'', ''failed to fetch'', ''timeout'', ''connection'',
                 ''ECONNRESET'', ''ETIMEDOUT'']. sublist p (toLowerCase (message err)))"
  by (simp add: isRetryableError_def retryableMessages_def Let_def)

lemma upload_bounds:
  "length (sleeps (fst (uploadToCloudinary e payload 0))) \<le> 3"
  "count_list (fst (uploadToCloudinary e payload 0)) Xhr \<le> 4"
proof -
  let ?round = "\<lambda>n. [CheckConfig, Validate, CheckOnline, Xhr, Sleep (2000 * (n + 1))]"
  from trace_closed_form [of 0 e payload] obtain k fin where
    k: "k \<le> 3"
    and tr: "fst (uploadToCloudinary e payload 0) = concat (map ?round [0..<k]) @ fin"
    and fin: "fin \<in> {[CheckConfig], [CheckConfig, Validate], [CheckConfig, Validate, CheckOnline],
               [CheckConfig, Validate, CheckOnline, Xhr]}"
    by auto
  from fin have s: "sleeps fin = []" and c: "count_list fin Xhr \<le> 1" by auto
  show "length (sleeps (fst (uploadToCloudinary e payload 0))) \<le> 3"
    unfolding tr sleeps_append sleeps_rounds using k s by simp
  show "count_list (fst (uploadToCloudinary e payload 0)) Xhr \<le> 4"
    unfolding tr count_list_append count_rounds using k c by simp
qed

lemma exhaustion:
  assumes p: "passes_checks e payload"
    and f: "\<forall>n<3. onLine e n \<and> (\<exists>x. try_block e (xhr e n) = Inl x \<and> isRetryableError x)"
    and l: "onLine e 3" "try_block e (xhr e 3) = Inl err"
  shows "uploadToCloudinary e payload 0 =
    ([CheckConfig, Validate, CheckOnline, Xhr, Sleep 2000,
      CheckConfig, Validate, CheckOnline, Xhr, Sleep 4000,
      CheckConfig, Validate, CheckOnline, Xhr, Sleep 6000,
      CheckConfig, Validate, CheckOnline, Xhr], Inl err)"
proof -
  have g: "retries_at e payload n" if "n < 3" for n
  proof -
    from f that obtain x where "onLine e n" "try_block e (xhr e n) = Inl x" "isRetryableError x"
      by blast
    with p that show ?thesis by (simp add: retries_at_def)
  qed
  have r0: "retries_at e payload 0" and r1: "retries_at e payload (Suc 0)"
    and r2: "retries_at e payload (Suc (Suc 0))"
    by (simp_all add: g)
  have 3: "uploadToCloudinary e payload (Suc (Suc (Suc 0))) =
      ([CheckConfig, Validate, CheckOnline, Xhr], Inl err)"
    using failure_stop [of e payload 3 err] p l by (simp add: numeral_3_eq_3)
  have 2: "uploadToCloudinary e payload (Suc (Suc 0)) =
      ([CheckConfig, Validate, CheckOnline, Xhr, Sleep 6000,
        CheckConfig, Validate, CheckOnline, Xhr], Inl err)"
    by (subst retry_unfold [OF r2]) (simp add: 3)
  have 1: "uploadToCloudinary e payload (Suc 0) =
      ([CheckConfig, Validate, CheckOnline, Xhr, Sleep 4000,
        CheckConfig, Validate, CheckOnline, Xhr, Sleep 6000,
        CheckConfig, Validate, CheckOnline, Xhr], Inl err)"
    by (subst retry_unfold [OF r1]) (simp add: 2)
  show ?thesis
    by (subst retry_unfold [OF r0]) (simp add: 1)
qed

subsection \<open>The whole run\<close>

lemma retries_at_iff:
  "passes_checks e payload \<Longrightarrow>
     retries_at e payload n \<longleftrightarrow>
       onLine e n \<and> n < 3 \<and> (\<exists>x. try_block e (xhr e n) = Inl x \<and> isRetryableError x)"
  by (auto simp: retries_at_def split: sum.splits)

lemma settle_result:
  assumes n: "\<not> retries_at e payload r" and p: "passes_checks e payload"
  shows "uploadToCloudinary e payload r =
     ((if onLine e r then [CheckConfig, Validate, CheckOnline, Xhr]
       else [CheckConfig, Validate, CheckOnline]),
      (if onLine e r then try_block e (xhr e r) else Inl (Thrown JsError OFFLINE_MSG)))"
proof (cases "onLine e r")
  case False
  with p show ?thesis by (simp add: offline_stop)
next
  case True
  show ?thesis
  proof (cases "try_block e (xhr e r)")
    case (Inr res)
    with p True show ?thesis by (simp add: success_stop)
  next
    case (Inl err)
    with p True n have "\<not> (r < 3 \<and> isRetryableError err)"
      by (auto simp: retries_at_def)
    with p True Inl show ?thesis by (simp add: failure_stop)
  qed
qed

lemma full_run:
  assumes p: "passes_checks e payload"
  shows "\<exists>k. (k = 0 \<or> r + k \<le> 3)
     \<and> (\<forall>n. r \<le> n \<and> n < r + k \<longrightarrow> retries_at e payload n)
     \<and> \<not> retries_at e payload (r + k)
     \<and> uploadToCloudinary e payload r =
         (concat (map (\<lambda>n. [CheckConfig, Validate, CheckOnline, Xhr, Sleep (2000 * (n + 1))])
                    [r..<r + k])
            @ (if onLine e (r + k) then [CheckConfig, Validate, CheckOnline, Xhr]
               else [CheckConfig, Validate, CheckOnline]),
          (if onLine e (r + k) then try_block e (xhr e (r + k))
           else Inl (Thrown JsError OFFLINE_MSG)))"
  (is "?P r")
proof (induct r rule: retry_induct [where e = e and payload = payload])
  case (step r)
  let ?round = "\<lambda>n. [CheckConfig, Validate, CheckOnline, Xhr, Sleep (2000 * (n + 1))]"
  let ?fin = "\<lambda>m. if onLine e m then [CheckConfig, Validate, CheckOnline, Xhr]
               else [CheckConfig, Validate, CheckOnline]"
  let ?out = "\<lambda>m. if onLine e m then try_block e (xhr e m)
           else Inl (Thrown JsError OFFLINE_MSG)"
  show ?case
  proof (cases "retries_at e payload r")
    case False
    from settle_result [OF False p] False show ?thesis
      by (intro exI [of _ 0]) auto
  next
    case True
    from step [OF True] obtain k where
      k: "k = 0 \<or> Suc r + k \<le> 3"
      and all: "\<forall>n. Suc r \<le> n \<and> n < Suc r + k \<longrightarrow> retries_at e payload n"
      and stop: "\<not> retries_at e payload (Suc r + k)"
      and run: "uploadToCloudinary e payload (Suc r) =
         (concat (map ?round [Suc r..<Suc r + k]) @ ?fin (Suc r + k), ?out (Suc r + k))"
      by blast
    have b: "r < 3" using True by (rule retries_at_bound)
    have 1: "Suc k = 0 \<or> r + Suc k \<le> 3" using k b by auto
    have 2: "\<forall>n. r \<le> n \<and> n < r + Suc k \<longrightarrow> retries_at e payload n"
    proof (intro allI impI)
      fix n assume "r \<le> n \<and> n < r + Suc k"
      then have "n = r \<or> (Suc r \<le> n \<and> n < Suc r + k)" by auto
      with True all show "retries_at e payload n" by blast
    qed
    have 3: "\<not> retries_at e payload (r + Suc k)" using stop by simp
    have "uploadToCloudinary e payload r =
        (?round r @ fst (uploadToCloudinary e payload (Suc r)),
         snd (uploadToCloudinary e payload (Suc r)))"
      using retry_unfold [OF True] by simp
    also have "\<dots> = (?round r @ concat (map ?round [Suc r..<Suc r + k]) @ ?fin (Suc r + k),
         ?out (Suc r + k))"
      by (simp only: run fst_conv snd_conv)
    also have "\<dots> = (concat (map ?round [r..<r + Suc k]) @ ?fin (r + Suc k), ?out (r + Suc k))"
      by (simp add: upt_conv_Cons)
    finally have 4: "uploadToCloudinary e payload r =
        (concat (map ?round [r..<r + Suc k]) @ ?fin (r + Suc k), ?out (r + Suc k))" .
    from 1 2 3 4 show ?thesis by (intro exI [of _ "Suc k"] conjI)
  qed
qed

lemma full_run_initial:
  assumes p: "passes_checks e payload"
  shows "\<exists>k. k \<le> 3
     \<and> (\<forall>n<k. retries_at e payload n)
     \<and> \<not> retries_at e payload k
     \<and> uploadToCloudinary e payload 0 =
         (concat (map (\<lambda>n. [CheckConfig, Validate, CheckOnline, Xhr, Sleep (2000 * (n + 1))])
                    [0..<k])
            @ (if onLine e k then [CheckConfig, Validate, CheckOnline, Xhr]
               else [CheckConfig, Validate, CheckOnline]),
          (if onLine e k then try_block e (xhr e k)
           else Inl (Thrown JsError OFFLINE_MSG)))"
proof -
  from full_run [OF p, of 0] obtain k where
    a: "(k = 0 \<or> 0 + k \<le> 3)
     \<and> (\<forall>n. 0 \<le> n \<and> n < 0 + k \<longrightarrow> retries_at e payload n)
     \<and> \<not> retries_at e payload (0 + k)
     \<and> uploadToCloudinary e payload 0 =
         (concat (map (\<lambda>n. [CheckConfig, Validate, CheckOnline, Xhr, Sleep (2000 * (n + 1))])
                    [0..<0 + k])
            @ (if onLine e (0 + k) then [CheckConfig, Validate, CheckOnline, Xhr]
               else [CheckConfig, Validate, CheckOnline]),
          (if onLine e (0 + k) then try_block e (xhr e (0 + k))
           else Inl (Thrown JsError OFFLINE_MSG)))" ..
  note b = a [unfolded add_0]
  have 1: "k \<le> 3" using b [THEN conjunct1] by auto
  have 2: "\<forall>n<k. retries_at e payload n" using b [THEN conjunct2, THEN conjunct1] by simp
  note 3 = b [THEN conjunct2, THEN conjunct2, THEN conjunct1]
  note 4 = b [THEN conjunct2, THEN conjunct2, THEN conjunct2]
  from 1 2 3 4 show ?thesis by (intro exI [of _ k] conjI)
qed

lemma retry_while_offline:
  assumes "passes_checks e payload" "onLine e r" "try_block e (xhr e r) = Inl err"
    "isRetryableError err" "r < 3" "\<not> onLine e (r + 1)"
  shows "uploadToCloudinary e payload r =
     ([CheckConfig, Validate, CheckOnline, Xhr, Sleep (2000 * (r + 1)),
       CheckConfig, Validate, CheckOnline], Inl (Thrown JsError OFFLINE_MSG))"
  using failure_retry [OF assms(1-3) assms(5) assms(4)]
    offline_stop [OF assms(1) assms(6)]
  by simp

lemma retry_while_online:
  assumes "passes_checks e payload" "onLine e r" "try_block e (xhr e r) = Inl err"
    "isRetryableError err" "r < 3" "onLine e (r + 1)"
  shows "\<exists>rest. fst (uploadToCloudinary e payload r) =
     [CheckConfig, Validate, CheckOnline, Xhr, Sleep (2000 * (r + 1)),
      CheckConfig, Validate, CheckOnline, Xhr] @ rest"
proof (cases "retries_at e payload (r + 1)")
  case True
  from retry_unfold [OF True] failure_retry [OF assms(1-3) assms(5) assms(4)]
  show ?thesis by simp
next
  case False
  from settle_result [OF False assms(1)] assms(6)
    failure_retry [OF assms(1-3) assms(5) assms(4)]
  show ?thesis by simp
qed

subsection \<open>The classification of errors\<close>

lemma transport_errors_classified:
  "isRetryableError (Thrown JsError ''Network error during upload'')"
  "isRetryableError (Thrown JsError ''Upload timeout. Please try again with a shorter video'')"
  "\<not> isRetryableError (Thrown JsError ''Upload cancelled'')"
  by code_simp+

lemma bad_preset_not_retryable: "\<not> isRetryableError (Thrown JsError ''bad preset'')"
  by code_simp

text \<open>
  The message is put in lower case before it is searched, so a pattern that has a
  capital letter is never found: of the six patterns only the first four can match.
\<close>

lemma lower_char_not_capital: "\<not> (65 \<le> (of_char (lower_char c) :: nat) \<and> (of_char (lower_char c) :: nat) \<le> 90)"
  by (auto simp: lower_char_def Let_def)

lemma capital_not_in_lower:
  assumes "65 \<le> (of_char c :: nat)" and "(of_char c :: nat) \<le> 90"
  shows "c \<notin> set (toLowerCase s)"
proof
  assume "c \<in> set (toLowerCase s)"
  then obtain d where "c = lower_char d" by (auto simp: toLowerCase_def)
  with assms lower_char_not_capital [of d] show False by simp
qed

lemma capital_patterns_never_match:
  "\<not> sublist ''ECONNRESET'' (toLowerCase s)" "\<not> sublist ''ETIMEDOUT'' (toLowerCase s)"
proof -
  have "CHR ''E'' \<notin> set (toLowerCase s)"
    by (rule capital_not_in_lower) simp_all
  then show "\<not> sublist ''ECONNRESET'' (toLowerCase s)" "\<not> sublist ''ETIMEDOUT'' (toLowerCase s)"
    by (auto dest: set_mono_sublist)
qed

lemma isRetryableError_four:
  "isRetryableError err \<longleftrightarrow>
     (\<exists>p \<in> set [''network error'', ''failed to fetch'', ''timeout'', ''connection''].
        sublist p (toLowerCase (message err)))"
  by (simp add: isRetryableError_def retryableMessages_def Let_def capital_patterns_never_match)

subsection \<open>Runs on the concrete inputs\<close>

lemma passes_v8: "passes_checks (v8_env reach settle) (Some webm)"
  by (simp add: passes_checks_def v8_env_def webm_def unset_def validateVideo_def MAX_FILE_SIZE_def)

lemma try_block_network:
  "try_block e NetworkFailure = Inl (Thrown JsError ''Network error during upload'')"
  by (simp add: try_block_def uploadWithProgress_def)

lemma try_block_reply:
  "try_block e (Load 200 (Parsed upload_reply)) =
     Inr \<lparr>success = True,
          url = Some (JStr ''https://res.cloudinary.com/demo/video/upload/v1/clip.webm''),
          publicId = Some (JStr ''clip''), cloudinaryResponse = upload_reply\<rparr>"
  by (simp add: try_block_def uploadWithProgress_def upload_reply_def)

lemma try_block_bad_preset:
  "try_block e (Load 400 (Parsed bad_preset_body)) = Inl (Thrown JsError ''bad preset'')"
  by (simp add: try_block_def uploadWithProgress_def response_error_def bad_preset_body_def)

lemma try_block_null_body:
  "try_block e (Load 400 (Parsed JNull)) = Inl (Thrown JsTypeError (null_read_msg e ''error''))"
  by (simp add: try_block_def uploadWithProgress_def response_error_def)

lemma try_block_unparsable:
  "\<not> (200 \<le> s \<and> s < 300) \<Longrightarrow>
     try_block e (Load s (ParseError m)) = Inl (Thrown JsError (''Upload failed with status '' @ show_nat s))"
  by (simp add: try_block_def uploadWithProgress_def response_error_def status_msg_def)

lemma try_block_host_message:
  assumes "\<not> (200 \<le> s \<and> s < 300)" and "map_of kvs ''error'' = Some (JObj ekvs)"
    and "map_of ekvs ''message'' = Some (JStr m)" and "m \<noteq> []"
  shows "try_block e (Load s (Parsed (JObj kvs))) = Inl (Thrown JsError m)"
  using assms by (simp add: try_block_def uploadWithProgress_def response_error_def)

lemma try_block_no_message:
  assumes "\<not> (200 \<le> s \<and> s < 300)" and "map_of kvs ''error'' = None"
  shows "try_block e (Load s (Parsed (JObj kvs)))
           = Inl (Thrown JsError (''Upload failed with status '' @ show_nat s))"
  using assms by (simp add: try_block_def uploadWithProgress_def response_error_def status_msg_def)

lemma flaky_run:
  "uploadToCloudinary flaky_env (Some webm) 0 =
     ([CheckConfig, Validate, CheckOnline, Xhr, Sleep 2000,
       CheckConfig, Validate, CheckOnline, Xhr],
      Inr \<lparr>success = True,
           url = Some (JStr ''https://res.cloudinary.com/demo/video/upload/v1/clip.webm''),
           publicId = Some (JStr ''clip''), cloudinaryResponse = upload_reply\<rparr>)"
proof -
  have p: "passes_checks flaky_env (Some webm)"
    unfolding flaky_env_def by (rule passes_v8)
  have "retries_at flaky_env (Some webm) 0"
    using p transport_errors_classified(1)
    by (simp add: retries_at_def flaky_env_def v8_env_def try_block_network)
  moreover have "uploadToCloudinary flaky_env (Some webm) (Suc 0) =
      ([CheckConfig, Validate, CheckOnline, Xhr],
       Inr \<lparr>success = True,
            url = Some (JStr ''https://res.cloudinary.com/demo/video/upload/v1/clip.webm''),
            publicId = Some (JStr ''clip''), cloudinaryResponse = upload_reply\<rparr>)"
    using p by (intro success_stop) (simp_all add: flaky_env_def v8_env_def try_block_reply)
  ultimately show ?thesis
    by (subst retry_unfold) simp_all
qed

lemma dropping_run:
  "uploadToCloudinary dropping_env (Some webm) 0 =
     ([CheckConfig, Validate, CheckOnline, Xhr, Sleep 2000, CheckConfig, Validate, CheckOnline],
      Inl (Thrown JsError OFFLINE_MSG))"
proof -
  have p: "passes_checks dropping_env (Some webm)"
    unfolding dropping_env_def by (rule passes_v8)
  have "retries_at dropping_env (Some webm) 0"
    using p transport_errors_classified(1)
    by (simp add: retries_at_def dropping_env_def v8_env_def try_block_network)
  moreover have "uploadToCloudinary dropping_env (Some webm) (Suc 0) =
      ([CheckConfig, Validate, CheckOnline], Inl (Thrown JsError OFFLINE_MSG))"
    using p by (intro offline_stop) (simp_all add: dropping_env_def v8_env_def)
  ultimately show ?thesis
    by (subst retry_unfold) simp_all
qed

lemma bad_preset_run:
  "uploadToCloudinary bad_preset_env (Some webm) 0 =
     ([CheckConfig, Validate, CheckOnline, Xhr], Inl (Thrown JsError ''bad preset''))"
proof -
  have p: "passes_checks bad_preset_env (Some webm)"
    unfolding bad_preset_env_def by (rule passes_v8)
  then show ?thesis
    using bad_preset_not_retryable
    by (intro failure_stop) (simp_all add: bad_preset_env_def v8_env_def try_block_bad_preset)
qed

subsection \<open>The claims about the upload\<close>

text \<open>
  C2. A run that starts with count 0 waits at most three times and makes at most four
  requests. An error is retryable exactly when its message, put in lower case, contains
  one of the six fixed strings. An invocation waits and retries only after a failure of
  its own request that is retryable, and only with a count below 3; a failure that is
  not retryable ends the invocation at once with that error, no wait made; a retryable
  one with a count below 3 is followed by the wait and the next invocation; and when
  the requests of counts 0, 1 and 2 fail with retryable errors and the request of count
  3 fails, the run ends after four requests with the error of the last one.
\<close>

theorem retry_policy:
  "length (sleeps (fst (uploadToCloudinary e payload 0))) \<le> 3
   \<and> count_list (fst (uploadToCloudinary e payload 0)) Xhr \<le> 4
   \<and> (isRetryableError err \<longleftrightarrow>
        (\<exists>p \<in> set [''network error'', ''failed to fetch'', ''timeout'', ''connection'',
                    ''ECONNRESET'', ''ETIMEDOUT'']. sublist p (toLowerCase (message err))))
   \<and> (sleeps (fst (uploadToCloudinary e payload r)) \<noteq> [] \<longrightarrow>
        (\<exists>x. try_block e (xhr e r) = Inl x \<and> isRetryableError x \<and> r < 3))
   \<and> (passes_checks e payload \<and> onLine e r \<and> try_block e (xhr e r) = Inl err
        \<and> \<not> isRetryableError err \<longrightarrow>
        uploadToCloudinary e payload r = ([CheckConfig, Validate, CheckOnline, Xhr], Inl err))
   \<and> (passes_checks e payload \<and> onLine e r \<and> try_block e (xhr e r) = Inl err
        \<and> isRetryableError err \<and> r < 3 \<longrightarrow>
        uploadToCloudinary e payload r =
          ([CheckConfig, Validate, CheckOnline, Xhr, Sleep (2000 * (r + 1))]
             @ fst (uploadToCloudinary e payload (r + 1)),
           snd (uploadToCloudinary e payload (r + 1))))
   \<and> (passes_checks e payload
        \<and> (\<forall>n<3. onLine e n \<and> (\<exists>x. try_block e (xhr e n) = Inl x \<and> isRetryableError x))
        \<and> onLine e 3 \<and> try_block e (xhr e 3) = Inl err \<longrightarrow>
        uploadToCloudinary e payload 0 =
          ([CheckConfig, Validate, CheckOnline, Xhr, Sleep 2000,
            CheckConfig, Validate, CheckOnline, Xhr, Sleep 4000,
            CheckConfig, Validate, CheckOnline, Xhr, Sleep 6000,
            CheckConfig, Validate, CheckOnline, Xhr], Inl err))"
proof -
  have a: "sleeps (fst (uploadToCloudinary e payload r)) \<noteq> [] \<longrightarrow>
        (\<exists>x. try_block e (xhr e r) = Inl x \<and> isRetryableError x \<and> r < 3)"
    using retried_only_if [of e payload r] by blast
  have b: "passes_checks e payload \<and> onLine e r \<and> try_block e (xhr e r) = Inl err
        \<and> \<not> isRetryableError err \<longrightarrow>
        uploadToCloudinary e payload r = ([CheckConfig, Validate, CheckOnline, Xhr], Inl err)"
    using failure_stop [of e payload r err] by blast
  have c: "passes_checks e payload \<and> onLine e r \<and> try_block e (xhr e r) = Inl err
        \<and> isRetryableError err \<and> r < 3 \<longrightarrow>
        uploadToCloudinary e payload r =
          ([CheckConfig, Validate, CheckOnline, Xhr, Sleep (2000 * (r + 1))]
             @ fst (uploadToCloudinary e payload (r + 1)),
           snd (uploadToCloudinary e payload (r + 1)))"
    using failure_retry [of e payload r err] by blast
  have d: "passes_checks e payload
        \<and> (\<forall>n<3. onLine e n \<and> (\<exists>x. try_block e (xhr e n) = Inl x \<and> isRetryableError x))
        \<and> onLine e 3 \<and> try_block e (xhr e 3) = Inl err \<longrightarrow>
        uploadToCloudinary e payload 0 =
          ([CheckConfig, Validate, CheckOnline, Xhr, Sleep 2000,
            CheckConfig, Validate, CheckOnline, Xhr, Sleep 4000,
            CheckConfig, Validate, CheckOnline, Xhr, Sleep 6000,
            CheckConfig, Validate, CheckOnline, Xhr], Inl err)"
    using exhaustion [of e payload err] by blast
  show ?thesis
    using upload_bounds [of e payload] isRetryableError_iff [of err] a b c d
    by (intro conjI)
qed

theorem retry_policy_witness:
  "uploadToCloudinary failing_env (Some webm) 0 =
     ([CheckConfig, Validate, CheckOnline, Xhr, Sleep 2000,
       CheckConfig, Validate, CheckOnline, Xhr, Sleep 4000,
       CheckConfig, Validate, CheckOnline, Xhr, Sleep 6000,
       CheckConfig, Validate, CheckOnline, Xhr],
      Inl (Thrown JsError ''Network error during upload''))
   \<and> uploadToCloudinary bad_preset_env (Some webm) 0 =
       ([CheckConfig, Validate, CheckOnline, Xhr], Inl (Thrown JsError ''bad preset''))"
proof
  note all = retry_policy [of failing_env "Some webm"
      "Thrown JsError ''Network error during upload''" 0]
  note last = all [THEN conjunct2, THEN conjunct2, THEN conjunct2, THEN conjunct2,
      THEN conjunct2, THEN conjunct2]
  have "passes_checks failing_env (Some webm)"
    unfolding failing_env_def by (rule passes_v8)
  then show "uploadToCloudinary failing_env (Some webm) 0 =
     ([CheckConfig, Validate, CheckOnline, Xhr, Sleep 2000,
       CheckConfig, Validate, CheckOnline, Xhr, Sleep 4000,
       CheckConfig, Validate, CheckOnline, Xhr, Sleep 6000,
       CheckConfig, Validate, CheckOnline, Xhr],
      Inl (Thrown JsError ''Network error during upload''))"
    using transport_errors_classified(1)
    by (intro last [THEN mp]) (simp add: failing_env_def v8_env_def try_block_network)
next
  note all = retry_policy [of bad_preset_env "Some webm" "Thrown JsError ''bad preset''" 0]
  note stop = all [THEN conjunct2, THEN conjunct2, THEN conjunct2, THEN conjunct2,
      THEN conjunct1]
  have "passes_checks bad_preset_env (Some webm)"
    unfolding bad_preset_env_def by (rule passes_v8)
  then show "uploadToCloudinary bad_preset_env (Some webm) 0 =
       ([CheckConfig, Validate, CheckOnline, Xhr], Inl (Thrown JsError ''bad preset''))"
    using bad_preset_not_retryable
    by (intro stop [THEN mp]) (simp add: bad_preset_env_def v8_env_def try_block_bad_preset)
qed

text \<open>
  C4. In every invocation the checks run in the order configuration, validation,
  connectivity, and the first one that fails ends the invocation with an error of its
  own before anything later runs: a missing setting ends it after the configuration
  check alone; an invalid payload ends it after the validation, with the violations
  joined (and a validation that throws ends it there with what it threw); and with both
  passed, an offline browser ends it after the connectivity check with the offline
  error, no request made and no wait. The three messages differ.
\<close>

theorem precondition_order:
  "(unset (cloud_name e) \<or> unset (upload_preset e) \<longrightarrow>
      uploadToCloudinary e payload r = ([CheckConfig], Inl (Thrown JsError CONFIG_MSG)))
   \<and> (\<not> unset (cloud_name e) \<and> \<not> unset (upload_preset e)
        \<and> validateVideo e payload = Inr v \<and> \<not> valid v \<longrightarrow>
      uploadToCloudinary e payload r =
        ([CheckConfig, Validate], Inl (Thrown JsError (js_join ''. '' (errors v))))
      \<and> js_join ''. '' (errors v) \<noteq> CONFIG_MSG \<and> js_join ''. '' (errors v) \<noteq> OFFLINE_MSG)
   \<and> (\<not> unset (cloud_name e) \<and> \<not> unset (upload_preset e)
        \<and> validateVideo e payload = Inl err \<longrightarrow>
      uploadToCloudinary e payload r = ([CheckConfig, Validate], Inl err))
   \<and> (passes_checks e payload \<and> \<not> onLine e r \<longrightarrow>
      uploadToCloudinary e payload r =
        ([CheckConfig, Validate, CheckOnline], Inl (Thrown JsError OFFLINE_MSG)))
   \<and> CONFIG_MSG \<noteq> OFFLINE_MSG"
  using config_stop [of e payload r] validation_stop [of e payload v r]
    validation_throw_stop [of e payload err r]
    messages_differ [of e payload v] offline_stop [of e payload r] config_offline_differ
  by blast

theorem precondition_order_witness:
  "uploadToCloudinary unconfigured_env (Some webm) 0
     = ([CheckConfig], Inl (Thrown JsError CONFIG_MSG))
   \<and> uploadToCloudinary failing_env (Some empty_text) 0
     = ([CheckConfig, Validate],
        Inl (Thrown JsError ''Video file is empty. Invalid file type. Expected video file''))
   \<and> uploadToCloudinary offline_env (Some webm) 0
     = ([CheckConfig, Validate, CheckOnline], Inl (Thrown JsError OFFLINE_MSG))
   \<and> uploadToCloudinary failing_env None 0
     = ([CheckConfig, Validate], Inl (Thrown JsTypeError (null_read_msg failing_env ''size'')))"
proof (intro conjI)
  note all = precondition_order [of unconfigured_env "Some webm" 0]
  show "uploadToCloudinary unconfigured_env (Some webm) 0
     = ([CheckConfig], Inl (Thrown JsError CONFIG_MSG))"
    by (intro all [THEN conjunct1, THEN mp]) (simp add: unconfigured_env_def unset_def)
next
  let ?v = "\<lparr>valid = False, errors = [empty_msg, type_msg]\<rparr>"
  note all = precondition_order [of failing_env "Some empty_text" 0 ?v]
  have "uploadToCloudinary failing_env (Some empty_text) 0 =
        ([CheckConfig, Validate], Inl (Thrown JsError (js_join ''. '' (errors ?v))))"
    by (intro all [THEN conjunct2, THEN conjunct1, THEN mp, THEN conjunct1])
       (simp add: failing_env_def v8_env_def unset_def validateVideo_def empty_text_def)
  then show "uploadToCloudinary failing_env (Some empty_text) 0
     = ([CheckConfig, Validate],
        Inl (Thrown JsError ''Video file is empty. Invalid file type. Expected video file''))"
    by (simp add: empty_msg_def type_msg_def)
next
  note all = precondition_order [of offline_env "Some webm" 0]
  have "passes_checks offline_env (Some webm)"
    unfolding offline_env_def by (rule passes_v8)
  then show "uploadToCloudinary offline_env (Some webm) 0
     = ([CheckConfig, Validate, CheckOnline], Inl (Thrown JsError OFFLINE_MSG))"
    by (intro all [THEN conjunct2, THEN conjunct2, THEN conjunct2, THEN conjunct1, THEN mp])
       (simp add: offline_env_def v8_env_def)
next
  note all = precondition_order [of failing_env None 0 _
      "Thrown JsTypeError (null_read_msg failing_env ''size'')"]
  show "uploadToCloudinary failing_env None 0
     = ([CheckConfig, Validate], Inl (Thrown JsTypeError (null_read_msg failing_env ''size'')))"
    by (intro all [THEN conjunct2, THEN conjunct2, THEN conjunct1, THEN mp])
       (simp add: failing_env_def v8_env_def unset_def validateVideo_def)
qed

text \<open>
  C5, as the code has it. A run that starts with count 0 consists of \<open>k\<close> rounds, with
  \<open>k\<close> at most 3, and a last invocation. Each round is the configuration check, the
  validation, the connectivity check and the request, followed by a wait; the waits are
  2000, 4000, ... milliseconds, the \<open>n\<close>-th one \<open>2000 * n\<close>. A retry is a new invocation
  of the whole function: after every wait the configuration check, the validation and
  the connectivity check run again. When the first two checks pass, every round had
  the browser online and a request that failed with a retryable error, and the last
  invocation reads the signal again: online, it makes the request and the outcome of
  the run is the outcome of that request; offline, it makes no request and the outcome
  of the run is the offline error. So a retry after a retryable failure resubmits the
  transfer only when the signal reports online at that moment, and otherwise ends the
  upload with the offline error.
\<close>

theorem retry_reruns_checks:
  "(\<exists>k fin. k \<le> 3
     \<and> fst (uploadToCloudinary e payload 0) =
         concat (map (\<lambda>n. [CheckConfig, Validate, CheckOnline, Xhr, Sleep (2000 * (n + 1))])
                   [0..<k]) @ fin
     \<and> fin \<in> {[CheckConfig], [CheckConfig, Validate], [CheckConfig, Validate, CheckOnline],
               [CheckConfig, Validate, CheckOnline, Xhr]}
     \<and> (0 < k \<longrightarrow>
          fin \<in> {[CheckConfig, Validate, CheckOnline], [CheckConfig, Validate, CheckOnline, Xhr]})
     \<and> sleeps (fst (uploadToCloudinary e payload 0)) = map (\<lambda>n. 2000 * n) [1..<Suc k]
     \<and> (0 < k \<longrightarrow> passes_checks e payload)
     \<and> (passes_checks e payload \<longrightarrow>
          (\<forall>n<k. onLine e n \<and> (\<exists>x. try_block e (xhr e n) = Inl x \<and> isRetryableError x))
          \<and> (k = 3 \<or> \<not> onLine e k
               \<or> (\<forall>x. try_block e (xhr e k) = Inl x \<longrightarrow> \<not> isRetryableError x))
          \<and> fin = (if onLine e k then [CheckConfig, Validate, CheckOnline, Xhr]
                    else [CheckConfig, Validate, CheckOnline])
          \<and> snd (uploadToCloudinary e payload 0) =
               (if onLine e k then try_block e (xhr e k)
                else Inl (Thrown JsError OFFLINE_MSG))))
   \<and> (passes_checks e payload \<and> onLine e r \<and> try_block e (xhr e r) = Inl err
        \<and> isRetryableError err \<and> r < 3 \<and> \<not> onLine e (r + 1) \<longrightarrow>
        uploadToCloudinary e payload r =
          ([CheckConfig, Validate, CheckOnline, Xhr, Sleep (2000 * (r + 1)),
            CheckConfig, Validate, CheckOnline], Inl (Thrown JsError OFFLINE_MSG)))
   \<and> (passes_checks e payload \<and> onLine e r \<and> try_block e (xhr e r) = Inl err
        \<and> isRetryableError err \<and> r < 3 \<and> onLine e (r + 1) \<longrightarrow>
        (\<exists>rest. fst (uploadToCloudinary e payload r) =
           [CheckConfig, Validate, CheckOnline, Xhr, Sleep (2000 * (r + 1)),
            CheckConfig, Validate, CheckOnline, Xhr] @ rest))"
proof (intro conjI)
  let ?round = "\<lambda>n. [CheckConfig, Validate, CheckOnline, Xhr, Sleep (2000 * (n + 1))]"
  have m: "map (\<lambda>n. 2000 * (n + 1)) [0..<k] = map (\<lambda>n. 2000 * n) [1..<Suc k]" for k
  proof -
    have "map (\<lambda>n. 2000 * (n + 1)) [0..<k] = map (\<lambda>n. 2000 * n) (map Suc [0..<k])"
      by simp
    also have "\<dots> = map (\<lambda>n. 2000 * n) [1..<Suc k]"
      by (simp only: map_Suc_upt One_nat_def)
    finally show ?thesis .
  qed
  show "\<exists>k fin. k \<le> 3
     \<and> fst (uploadToCloudinary e payload 0) = concat (map ?round [0..<k]) @ fin
     \<and> fin \<in> {[CheckConfig], [CheckConfig, Validate], [CheckConfig, Validate, CheckOnline],
               [CheckConfig, Validate, CheckOnline, Xhr]}
     \<and> (0 < k \<longrightarrow>
          fin \<in> {[CheckConfig, Validate, CheckOnline], [CheckConfig, Validate, CheckOnline, Xhr]})
     \<and> sleeps (fst (uploadToCloudinary e payload 0)) = map (\<lambda>n. 2000 * n) [1..<Suc k]
     \<and> (0 < k \<longrightarrow> passes_checks e payload)
     \<and> (passes_checks e payload \<longrightarrow>
          (\<forall>n<k. onLine e n \<and> (\<exists>x. try_block e (xhr e n) = Inl x \<and> isRetryableError x))
          \<and> (k = 3 \<or> \<not> onLine e k
               \<or> (\<forall>x. try_block e (xhr e k) = Inl x \<longrightarrow> \<not> isRetryableError x))
          \<and> fin = (if onLine e k then [CheckConfig, Validate, CheckOnline, Xhr]
                    else [CheckConfig, Validate, CheckOnline])
          \<and> snd (uploadToCloudinary e payload 0) =
               (if onLine e k then try_block e (xhr e k)
                else Inl (Thrown JsError OFFLINE_MSG)))"
  proof (cases "passes_checks e payload")
    case p: True
    from full_run_initial [OF p] obtain k where
      a: "k \<le> 3
     \<and> (\<forall>n<k. retries_at e payload n)
     \<and> \<not> retries_at e payload k
     \<and> uploadToCloudinary e payload 0 =
         (concat (map ?round [0..<k])
            @ (if onLine e k then [CheckConfig, Validate, CheckOnline, Xhr]
               else [CheckConfig, Validate, CheckOnline]),
          (if onLine e k then try_block e (xhr e k)
           else Inl (Thrown JsError OFFLINE_MSG)))" ..
    note k = a [THEN conjunct1]
    note all = a [THEN conjunct2, THEN conjunct1]
    note stop = a [THEN conjunct2, THEN conjunct2, THEN conjunct1]
    note run = a [THEN conjunct2, THEN conjunct2, THEN conjunct2]
    let ?fin = "if onLine e k then [CheckConfig, Validate, CheckOnline, Xhr]
               else [CheckConfig, Validate, CheckOnline]"
    have f: "fst (uploadToCloudinary e payload 0) = concat (map ?round [0..<k]) @ ?fin"
      by (simp only: run fst_conv)
    have s: "sleeps ?fin = []" by simp
    have 1: "sleeps (fst (uploadToCloudinary e payload 0)) = map (\<lambda>n. 2000 * n) [1..<Suc k]"
      unfolding f sleeps_append sleeps_rounds m using s by simp
    have 2: "\<forall>n<k. onLine e n \<and> (\<exists>x. try_block e (xhr e n) = Inl x \<and> isRetryableError x)"
      using all retries_at_iff [OF p] by blast
    have 3: "k = 3 \<or> \<not> onLine e k
               \<or> (\<forall>x. try_block e (xhr e k) = Inl x \<longrightarrow> \<not> isRetryableError x)"
      using stop k retries_at_iff [OF p, of k] by auto
    have 4: "snd (uploadToCloudinary e payload 0) =
               (if onLine e k then try_block e (xhr e k)
                else Inl (Thrown JsError OFFLINE_MSG))"
      by (simp only: run snd_conv)
    have 5: "?fin \<in> {[CheckConfig, Validate, CheckOnline], [CheckConfig, Validate, CheckOnline, Xhr]}"
      by simp
    have 6: "?fin \<in> {[CheckConfig], [CheckConfig, Validate], [CheckConfig, Validate, CheckOnline],
               [CheckConfig, Validate, CheckOnline, Xhr]}"
      by simp
    show ?thesis
      by (intro exI [of _ k] exI [of _ ?fin] conjI impI)
         (rule k f 6 5 1 p 2 3 refl 4)+
  next
    case np: False
    have "\<not> retries_at e payload 0"
      using np by (auto dest: retries_at_passes)
    then have fin: "fst (uploadToCloudinary e payload 0) \<in>
        {[CheckConfig], [CheckConfig, Validate], [CheckConfig, Validate, CheckOnline],
         [CheckConfig, Validate, CheckOnline, Xhr]}"
      and sl: "sleeps (fst (uploadToCloudinary e payload 0)) = []"
      by (rule settle_unfold, rule sleeps_settle)
    from fin sl np show ?thesis
      by (intro exI [of _ 0] exI [of _ "fst (uploadToCloudinary e payload 0)"]) simp
  qed
next
  show "passes_checks e payload \<and> onLine e r \<and> try_block e (xhr e r) = Inl err
        \<and> isRetryableError err \<and> r < 3 \<and> \<not> onLine e (r + 1) \<longrightarrow>
        uploadToCloudinary e payload r =
          ([CheckConfig, Validate, CheckOnline, Xhr, Sleep (2000 * (r + 1)),
            CheckConfig, Validate, CheckOnline], Inl (Thrown JsError OFFLINE_MSG))"
    using retry_while_offline [of e payload r err] by blast
next
  show "passes_checks e payload \<and> onLine e r \<and> try_block e (xhr e r) = Inl err
        \<and> isRetryableError err \<and> r < 3 \<and> onLine e (r + 1) \<longrightarrow>
        (\<exists>rest. fst (uploadToCloudinary e payload r) =
           [CheckConfig, Validate, CheckOnline, Xhr, Sleep (2000 * (r + 1)),
            CheckConfig, Validate, CheckOnline, Xhr] @ rest)"
    using retry_while_online [of e payload r err] by blast
qed

theorem retry_reruns_checks_witness:
  "sleeps (fst (uploadToCloudinary failing_env (Some webm) 0)) = [2000, 4000, 6000]
   \<and> count_list (fst (uploadToCloudinary failing_env (Some webm) 0)) Validate = 4
   \<and> uploadToCloudinary dropping_env (Some webm) 0 =
       ([CheckConfig, Validate, CheckOnline, Xhr, Sleep 2000, CheckConfig, Validate, CheckOnline],
        Inl (Thrown JsError OFFLINE_MSG))"
proof (intro conjI)
  have p: "passes_checks failing_env (Some webm)"
    unfolding failing_env_def by (rule passes_v8)
  have run: "uploadToCloudinary failing_env (Some webm) 0 =
     ([CheckConfig, Validate, CheckOnline, Xhr, Sleep 2000,
       CheckConfig, Validate, CheckOnline, Xhr, Sleep 4000,
       CheckConfig, Validate, CheckOnline, Xhr, Sleep 6000,
       CheckConfig, Validate, CheckOnline, Xhr],
      Inl (Thrown JsError ''Network error during upload''))"
    using p transport_errors_classified(1)
    by (intro exhaustion) (simp_all add: failing_env_def v8_env_def try_block_network)
  show "sleeps (fst (uploadToCloudinary failing_env (Some webm) 0)) = [2000, 4000, 6000]"
    using retry_reruns_checks [of failing_env "Some webm"] by (simp add: run)
  show "count_list (fst (uploadToCloudinary failing_env (Some webm) 0)) Validate = 4"
    by (simp add: run)
next
  note all = retry_reruns_checks [of dropping_env "Some webm" 0
      "Thrown JsError ''Network error during upload''"]
  have p: "passes_checks dropping_env (Some webm)"
    unfolding dropping_env_def by (rule passes_v8)
  have "uploadToCloudinary dropping_env (Some webm) 0 =
       ([CheckConfig, Validate, CheckOnline, Xhr, Sleep (2000 * (0 + 1)),
         CheckConfig, Validate, CheckOnline], Inl (Thrown JsError OFFLINE_MSG))"
    using p transport_errors_classified(1)
    by (intro all [THEN conjunct2, THEN conjunct1, THEN mp])
       (simp add: dropping_env_def v8_env_def try_block_network)
  then show "uploadToCloudinary dropping_env (Some webm) 0 =
       ([CheckConfig, Validate, CheckOnline, Xhr, Sleep 2000, CheckConfig, Validate, CheckOnline],
        Inl (Thrown JsError OFFLINE_MSG))"
    by simp
qed

text \<open>
  C5 as stated fails. After one failure on the network the retry runs the
  configuration check and the validation a second time; and when the browser has gone
  offline in the meantime, the retry makes no request at all: the run ends with the
  offline error after a single request.
\<close>

theorem retry_skips_checks_counterexample:
  "fst (uploadToCloudinary flaky_env (Some webm) 0) =
     [CheckConfig, Validate, CheckOnline, Xhr, Sleep 2000,
      CheckConfig, Validate, CheckOnline, Xhr]
   \<and> uploadToCloudinary dropping_env (Some webm) 0 =
     ([CheckConfig, Validate, CheckOnline, Xhr, Sleep 2000, CheckConfig, Validate, CheckOnline],
      Inl (Thrown JsError OFFLINE_MSG))"
  by (simp add: flaky_run dropping_run)

text \<open>
  C6 fails on a response that is not ok and whose body is the JSON text \<open>null\<close>: the
  parsed body is \<open>null\<close>, reading \<open>error\<close> of it throws, and the upload ends with that
  \<open>TypeError\<close>, which is neither a message of the host nor the message naming the status.
\<close>

theorem null_error_body_throws:
  "try_block e (Load 400 (Parsed JNull)) = Inl (Thrown JsTypeError (null_read_msg e ''error''))
   \<and> uploadToCloudinary null_body_env (Some webm) 0 =
       ([CheckConfig, Validate, CheckOnline, Xhr],
        Inl (Thrown JsTypeError
               (''Cannot read properties of null (reading '' @ [CHR 0x27] @ ''error''
                  @ [CHR 0x27] @ '')'')))"
proof
  show "try_block e (Load 400 (Parsed JNull)) = Inl (Thrown JsTypeError (null_read_msg e ''error''))"
    by (rule try_block_null_body)
next
  have p: "passes_checks null_body_env (Some webm)"
    unfolding null_body_env_def by (rule passes_v8)
  have n: "\<not> isRetryableError (Thrown JsTypeError
               (''Cannot read properties of null (reading '' @ [CHR 0x27] @ ''error''
                  @ [CHR 0x27] @ '')''))"
    by code_simp
  have "uploadToCloudinary null_body_env (Some webm) 0 =
       ([CheckConfig, Validate, CheckOnline, Xhr],
        Inl (Thrown JsTypeError (null_read_msg null_body_env ''error'')))"
    using p n
    by (intro failure_stop) (simp_all add: null_body_env_def v8_env_def try_block_null_body)
  then show "uploadToCloudinary null_body_env (Some webm) 0 =
       ([CheckConfig, Validate, CheckOnline, Xhr],
        Inl (Thrown JsTypeError
               (''Cannot read properties of null (reading '' @ [CHR 0x27] @ ''error''
                  @ [CHR 0x27] @ '')'')))"
    by (simp add: null_body_env_def v8_env_def)
qed

end
